theory Spec2Isabelle
  imports Complex_Main "HOL-Library.AList" "HOL-Library.Word"
begin

section \<open>HTTP errors\<close>

text \<open>
  A handler either returns a body or raises \<open>HTTPException\<close>; the model returns
  \<open>Inl\<close> of the exception or \<open>Inr\<close> of the body. An exception that no handler
  catches (\<open>bson.errors.InvalidId\<close>, a pydantic validation error on a response, a
  storage error) is turned by the framework into status 500.
\<close>

record HTTPException =
  status_code :: nat
  detail :: string
  headers :: "(string \<times> string) list"

definition internal_server_error :: HTTPException where
  "internal_server_error =
     \<lparr>status_code = 500, detail = ''Internal Server Error'', headers = []\<rparr>"

section \<open>models.py\<close>

text \<open>
  The pydantic models, one record each. Where two models of the source share a field
  name, the later record carries a prefix. An \<open>int\<close> is an unbounded integer, a
  \<open>str\<close> the bytes of its UTF-8 encoding (a \<open>str\<close> that has none, one with a lone
  surrogate, can be neither hashed nor stored and is left out). \<open>datetime\<close> values are integers
  (milliseconds since the epoch, the resolution of the store); \<open>float\<close> ratings are
  the real numbers they denote.
\<close>

record UserCreate =
  username :: string
  email :: string
  password :: string
  phone :: string
  is_admin :: "bool option"

record UserResponse =
  resp_username :: string
  resp_email :: string
  resp_phone :: string
  resp_is_admin :: "bool option"

record MovieCreate =
  title :: string
  genre :: string
  rating :: real
  duration :: int
  release_date :: int

text \<open>
  \<open>MovieUpdate\<close> is read with \<open>exclude_unset\<close>: a field is absent from the body
  (\<open>None\<close>), or present with the value null (\<open>Some None\<close>) or with a value.
\<close>

record MovieUpdate =
  upd_title :: "string option option"
  upd_genre :: "string option option"
  upd_rating :: "real option option"
  upd_duration :: "int option option"
  upd_release_date :: "int option option"

record CinemaHallCreate =
  hall_name :: string
  hall_address :: string
  hall_phone :: string

record ScreenCreate =
  hall_id :: string
  screen_name :: string
  total_seats :: int

record ShowCreate =
  movie_id :: string
  screen_id :: string
  show_time :: int

record BookingCreate =
  show_id :: string
  user_id :: string
  seat_number :: int

record ShowResponse =
  sr_show_id :: string
  sr_movie_id :: string
  sr_screen_id :: string
  sr_show_time :: int
  sr_movie_title :: "string option"

record MovieSearchResponse =
  msr_movie_id :: string
  msr_title :: string
  msr_genre :: string
  msr_rating :: real
  msr_duration :: int
  msr_release_date :: int

section \<open>database.py: the document store\<close>

text \<open>
  A collection is the list of its documents in insertion order; a document is its
  \<open>_id\<close> (the number its twelve bytes denote) paired with its fields. The store hands
  out fresh identifiers from a counter. A stored integer is a signed 64-bit number: the
  driver encodes a Python \<open>int\<close> into the store's format and raises
  \<open>OverflowError\<close> on a value outside that range, before anything is sent.
  Documents are taken to be within the store's size limit.
\<close>

definition bson_int :: "int \<Rightarrow> 64 word option" where
  "bson_int n =
     (if - (2 ^ 63) \<le> n \<and> n < 2 ^ 63 then Some (word_of_int n) else None)"

datatype pwhash = Bcrypt string string

record user_fields =
  user_username :: string
  user_email :: string
  user_password :: pwhash
  user_phone :: string
  user_is_admin :: "bool option"

text \<open>A stored movie: \<open>update_movie\<close> can set any field to null.\<close>

record movie_fields =
  movie_title :: "string option"
  movie_genre :: "string option"
  movie_rating :: "real option"
  movie_duration :: "64 word option"
  movie_release_date :: "int option"

record screen_fields =
  scr_hall_id :: string
  scr_name :: string
  scr_total_seats :: "64 word"

record booking_fields =
  bk_show_id :: string
  bk_user_id :: string
  bk_seat_number :: "64 word"

type_synonym 'a collection = "(nat \<times> 'a) list"

record db =
  users_collection :: "user_fields collection"
  movies_collection :: "movie_fields collection"
  cinema_halls_collection :: "CinemaHallCreate collection"
  screens_collection :: "screen_fields collection"
  shows_collection :: "ShowCreate collection"
  bookings_collection :: "booking_fields collection"
  next_oid :: nat

definition empty_db :: db where
  "empty_db = \<lparr>users_collection = [], movies_collection = [],
     cinema_halls_collection = [], screens_collection = [], shows_collection = [],
     bookings_collection = [], next_oid = 0\<rparr>"

text \<open>
  \<open>find_one\<close> returns the first document matching the filter; \<open>find(...).to_list(length=100)\<close>
  the first hundred; \<open>insert_one\<close> appends the document under a fresh \<open>_id\<close>.
\<close>

definition find_one :: "(nat \<times> 'a \<Rightarrow> bool) \<Rightarrow> 'a collection \<Rightarrow> (nat \<times> 'a) option" where
  "find_one flt c = List.find flt c"

definition find_to_list :: "(nat \<times> 'a \<Rightarrow> bool) \<Rightarrow> nat \<Rightarrow> 'a collection \<Rightarrow> 'a collection" where
  "find_to_list flt n c = take n (filter flt c)"

definition insert_one :: "'a \<Rightarrow> nat \<Rightarrow> 'a collection \<Rightarrow> 'a collection" where
  "insert_one doc oid c = c @ [(oid, doc)]"

text \<open>
  \<open>find_one_and_update\<close> is used once, with \<open>upsert=True\<close>, an update of
  \<open>$setOnInsert\<close> only and \<open>return_document=False\<close> (the document before the call).
  The store works in two steps. It first runs the query (\<open>upsert_query\<close>): a matching
  document is returned and nothing is written. With no match it then inserts the fields
  under a fresh \<open>_id\<close> (\<open>upsert_insert\<close>) and the call returns \<open>None\<close>.
  \<open>database.py\<close> declares no unique index on the fields of the filter, and without
  one the store does not serialise two upserts against each other: between the query
  of one and its insert, another may run its own query. \<open>find_one_and_update\<close> below
  is the call with nothing running meanwhile, the two steps back to back; the steps
  are interleaved in the section on concurrent bookings.
\<close>

definition upsert_query :: "(nat \<times> 'a \<Rightarrow> bool) \<Rightarrow> 'a collection \<Rightarrow> (nat \<times> 'a) option" where
  "upsert_query flt c = find_one flt c"

definition upsert_insert :: "'a \<Rightarrow> nat \<Rightarrow> 'a collection \<Rightarrow> 'a collection" where
  "upsert_insert set_on_insert oid c = insert_one set_on_insert oid c"

definition find_one_and_update ::
  "(nat \<times> 'a \<Rightarrow> bool) \<Rightarrow> 'a \<Rightarrow> nat \<Rightarrow> 'a collection \<Rightarrow> (nat \<times> 'a) option \<times> 'a collection" where
  "find_one_and_update flt set_on_insert oid c =
     (case upsert_query flt c of
        Some d \<Rightarrow> (Some d, c)
      | None \<Rightarrow> (None, upsert_insert set_on_insert oid c))"

text \<open>
  \<open>update_one\<close> with \<open>$set\<close> changes the first matching document and reports
  \<open>matched_count\<close> (a \<open>$set\<close> of no field changes nothing);
  \<open>delete_one\<close> removes the first matching document and reports \<open>deleted_count\<close>;
  \<open>delete_many\<close> removes every matching document.
\<close>

fun update_one :: "(nat \<times> 'a \<Rightarrow> bool) \<Rightarrow> ('a \<Rightarrow> 'a) \<Rightarrow> 'a collection \<Rightarrow> nat \<times> 'a collection" where
  "update_one flt upd [] = (0, [])"
| "update_one flt upd (d # c) =
     (if flt d then (1, (fst d, upd (snd d)) # c)
      else (case update_one flt upd c of (n, c') \<Rightarrow> (n, d # c')))"

fun delete_one :: "(nat \<times> 'a \<Rightarrow> bool) \<Rightarrow> 'a collection \<Rightarrow> nat \<times> 'a collection" where
  "delete_one flt [] = (0, [])"
| "delete_one flt (d # c) =
     (if flt d then (1, c)
      else (case delete_one flt c of (n, c') \<Rightarrow> (n, d # c')))"

definition delete_many :: "(nat \<times> 'a \<Rightarrow> bool) \<Rightarrow> 'a collection \<Rightarrow> 'a collection" where
  "delete_many flt c = filter (\<lambda>d. \<not> flt d) c"

subsection \<open>ObjectId and its string form\<close>

text \<open>
  \<open>str\<close> of an ObjectId is its 24 lower-case hexadecimal digits. \<open>ObjectId(s)\<close>
  takes a string of length 24 and reads it with \<open>bytes.fromhex\<close>, which wants pairs
  of hexadecimal digits of either case and skips ASCII whitespace between pairs; it
  raises \<open>InvalidId\<close> on anything else. A string with whitespace therefore yields an
  identifier of fewer than twelve bytes, which is the \<open>_id\<close> of no stored document.
\<close>

definition hex_digit :: "nat \<Rightarrow> char" where
  "hex_digit n = ''0123456789abcdef'' ! (n mod 16)"

fun hex_str :: "nat \<Rightarrow> nat \<Rightarrow> string" where
  "hex_str 0 n = []"
| "hex_str (Suc k) n = hex_str k (n div 16) @ [hex_digit n]"

definition str_oid :: "nat \<Rightarrow> string" where
  "str_oid n = hex_str 24 n"

definition hex_val :: "char \<Rightarrow> nat option" where
  "hex_val c =
     (let n = of_char c :: nat in
      if 48 \<le> n \<and> n \<le> 57 then Some (n - 48)
      else if 97 \<le> n \<and> n \<le> 102 then Some (n - 87)
      else if 65 \<le> n \<and> n \<le> 70 then Some (n - 55)
      else None)"

definition is_space :: "char \<Rightarrow> bool" where
  "is_space c = (let n = of_char c :: nat in (9 \<le> n \<and> n \<le> 13) \<or> n = 32)"

fun fromhex :: "string \<Rightarrow> nat list option" where
  "fromhex [] = Some []"
| "fromhex [c] = (if is_space c then Some [] else None)"
| "fromhex (c # c' # cs) =
     (if is_space c then fromhex (c' # cs)
      else (case (hex_val c, hex_val c') of
              (Some hi, Some lo) \<Rightarrow>
                (case fromhex cs of None \<Rightarrow> None | Some bs \<Rightarrow> Some ((16 * hi + lo) # bs))
            | _ \<Rightarrow> None))"

datatype object_id = Oid nat | Short_oid "nat list"

definition ObjectId :: "string \<Rightarrow> object_id option" where
  "ObjectId s =
     (if length s = 24
      then (case fromhex s of
              None \<Rightarrow> None
            | Some bs \<Rightarrow>
                Some (if length bs = 12 then Oid (foldl (\<lambda>a b. 256 * a + b) 0 bs)
                      else Short_oid bs))
      else None)"

text \<open>The filter \<open>{"_id": oid}\<close>.\<close>

definition has_id :: "object_id \<Rightarrow> nat \<times> 'a \<Rightarrow> bool" where
  "has_id oid doc = (oid = Oid (fst doc))"

section \<open>main.py: configuration, passwords and tokens\<close>

text \<open>
  The values read from the environment at start-up, and what the libraries contribute
  that the source does not fix:
  the store's regular-expression engine (whether a pattern compiles, and whether it is
  found in a text, ignoring case), which \<open>search_movies\<close> hands the title to;
  whether the token library can sign, and can verify, with \<open>SECRET_KEY\<close> under
  \<open>ALGORITHM\<close>; and the language's \<open>int()\<close> on a string (\<open>None\<close> where it raises
  \<open>ValueError\<close>), which the token library applies to a claim.
\<close>

record env =
  SECRET_KEY :: string
  ALGORITHM :: string
  ACCESS_TOKEN_EXPIRE_MINUTES :: int
  regex_valid :: "string \<Rightarrow> bool"
  regex_search :: "string \<Rightarrow> string \<Rightarrow> bool"
  can_sign :: bool
  can_verify :: bool
  int_of_str :: "string \<Rightarrow> int option"

text \<open>
  \<open>pwd_context\<close> is bcrypt. Hashing and verifying raise on a password that holds a NUL
  byte or is longer than 4096 bytes (\<open>None\<close> below; no handler catches it). bcrypt reads
  the first 72 bytes of a password only, so a hash is the salt and those bytes, and
  verification compares them. The salt is drawn afresh at every call and is an
  argument here.
\<close>

definition password_refused :: "string \<Rightarrow> bool" where
  "password_refused pw = (CHR 0x00 \<in> set pw \<or> length pw > 4096)"

definition get_password_hash :: "string \<Rightarrow> string \<Rightarrow> pwhash option" where
  "get_password_hash salt pw =
     (if password_refused pw then None else Some (Bcrypt salt (take 72 pw)))"

fun verify_password :: "string \<Rightarrow> pwhash \<Rightarrow> bool option" where
  "verify_password plain_password (Bcrypt salt pw) =
     (if password_refused plain_password then None
      else Some (take 72 plain_password = pw))"

text \<open>
  A signed token is its claims with the key and algorithm that signed them; any other
  bearer string is \<open>Garbage\<close>. \<open>jwt.encode\<close> raises when the library cannot sign with
  the key. \<open>jwt.decode\<close> checks the structure, the algorithm and the signature, then
  the claims: \<open>exp\<close>, converted with \<open>int()\<close>, against the clock (in whole seconds, with
  no leeway: the token is expired when \<open>exp < now\<close>) and \<open>sub\<close>, which must be a string.
  All three errors are \<open>JWTError\<close> or subclasses of it.
\<close>

datatype jvalue = JStr string | JInt int

type_synonym claims = "(string \<times> jvalue) list"

datatype token = JWS claims string string | Garbage string

datatype jose_error = JWTError | ExpiredSignatureError | JWTClaimsError

definition jwt_encode :: "env \<Rightarrow> claims \<Rightarrow> string \<Rightarrow> string \<Rightarrow> token option" where
  "jwt_encode cfg to_encode key alg = (if can_sign cfg then Some (JWS to_encode key alg) else None)"

definition validate_exp :: "env \<Rightarrow> claims \<Rightarrow> int \<Rightarrow> jose_error option" where
  "validate_exp cfg payload now =
     (case map_of payload ''exp'' of
        None \<Rightarrow> None
      | Some v \<Rightarrow>
          (case (case v of JInt e \<Rightarrow> Some e | JStr s \<Rightarrow> int_of_str cfg s) of
             None \<Rightarrow> Some JWTClaimsError
           | Some e \<Rightarrow> if e < now then Some ExpiredSignatureError else None))"

definition validate_sub :: "claims \<Rightarrow> jose_error option" where
  "validate_sub payload =
     (case map_of payload ''sub'' of
        None \<Rightarrow> None
      | Some (JStr s) \<Rightarrow> None
      | Some (JInt i) \<Rightarrow> Some JWTClaimsError)"

fun jwt_decode :: "env \<Rightarrow> token \<Rightarrow> string \<Rightarrow> string list \<Rightarrow> int \<Rightarrow> jose_error + claims" where
  "jwt_decode cfg (Garbage s) key algorithms now = Inl JWTError"
| "jwt_decode cfg (JWS payload k alg) key algorithms now =
     (if alg \<notin> set algorithms then Inl JWTError
      else if k \<noteq> key then Inl JWTError
      else if \<not> can_verify cfg then Inl JWTError
      else (case validate_exp cfg payload now of
              Some e \<Rightarrow> Inl e
            | None \<Rightarrow> (case validate_sub payload of
                         Some e \<Rightarrow> Inl e
                       | None \<Rightarrow> Inr payload)))"

text \<open>
  Times are clock readings in whole seconds since the epoch, and a \<open>timedelta\<close> is a
  number of seconds. A \<open>datetime\<close> lies between the years 1 and 9999, and adding a
  delta that leaves the range raises \<open>OverflowError\<close>; so does a \<open>timedelta\<close> of more
  than 999999999 days either way.
\<close>

definition datetime_add :: "int \<Rightarrow> int \<Rightarrow> int option" where
  "datetime_add t delta =
     (if - 62135596800 \<le> t + delta \<and> t + delta \<le> 253402300799 then Some (t + delta)
      else None)"

definition timedelta_minutes :: "int \<Rightarrow> int option" where
  "timedelta_minutes m =
     (if - 1439999998560 \<le> m \<and> m \<le> 1439999999999 then Some (60 * m) else None)"

text \<open>
  \<open>create_access_token\<close>: \<open>expires_delta\<close> is a \<open>timedelta\<close> or \<open>None\<close>; the test
  \<open>if expires_delta\<close> is false for \<open>None\<close> and for a delta of zero. The result is
  \<open>None\<close> when the addition or \<open>jwt.encode\<close> raises.
\<close>

definition create_access_token :: "env \<Rightarrow> claims \<Rightarrow> int option \<Rightarrow> int \<Rightarrow> token option" where
  "create_access_token cfg data expires_delta now =
     (case (case expires_delta of
              Some d \<Rightarrow> if d \<noteq> 0 then datetime_add now d else datetime_add now (15 * 60)
            | None \<Rightarrow> datetime_add now (15 * 60)) of
        None \<Rightarrow> None
      | Some expire \<Rightarrow>
          (let to_encode = AList.update ''exp'' (JInt expire) data
           in jwt_encode cfg to_encode (SECRET_KEY cfg) (ALGORITHM cfg)))"

definition get_user :: "string \<Rightarrow> db \<Rightarrow> (nat \<times> user_fields) option" where
  "get_user email_arg d = find_one (\<lambda>u. user_email (snd u) = email_arg) (users_collection d)"

text \<open>
  \<open>authenticate_user\<close> returns the user, or \<open>False\<close> (\<open>Rejected\<close>); \<open>Raised\<close> when
  \<open>verify_password\<close> raises.
\<close>

datatype authenticated = Raised | Rejected | Authenticated "nat \<times> user_fields"

definition authenticate_user :: "string \<Rightarrow> string \<Rightarrow> db \<Rightarrow> authenticated" where
  "authenticate_user email_arg pw d =
     (case get_user email_arg d of
        None \<Rightarrow> Rejected
      | Some user \<Rightarrow>
          (case verify_password pw (user_password (snd user)) of
             None \<Rightarrow> Raised
           | Some ok \<Rightarrow> if \<not> ok then Rejected else Authenticated user))"

text \<open>
  The \<open>Authorization\<close> header, when present, names a scheme. The framework's
  \<open>OAuth2PasswordBearer\<close> dependency answers a missing header, and a scheme other than
  bearer, itself; otherwise it hands the token to \<open>get_current_user\<close>.
\<close>

datatype authorization = Bearer token | Scheme string string

definition not_authenticated :: HTTPException where
  "not_authenticated =
     \<lparr>status_code = 401, detail = ''Not authenticated'',
      headers = [(''WWW-Authenticate'', ''Bearer'')]\<rparr>"

fun oauth2_scheme :: "authorization option \<Rightarrow> HTTPException + token" where
  "oauth2_scheme None = Inl not_authenticated"
| "oauth2_scheme (Some (Scheme s p)) = Inl not_authenticated"
| "oauth2_scheme (Some (Bearer t)) = Inr t"

definition credentials_exception :: HTTPException where
  "credentials_exception =
     \<lparr>status_code = 401, detail = ''Could not validate credentials'',
      headers = [(''WWW-Authenticate'', ''Bearer'')]\<rparr>"

text \<open>
  \<open>get_current_user\<close> raises the one \<open>credentials_exception\<close> for every
  \<open>JWTError\<close>, for a payload with no \<open>sub\<close> and for a subject with no stored user.
  (A \<open>sub\<close> that is not a string never passes \<open>jwt.decode\<close>.)
\<close>

definition get_current_user ::
  "env \<Rightarrow> int \<Rightarrow> token \<Rightarrow> db \<Rightarrow> HTTPException + (nat \<times> user_fields)" where
  "get_current_user cfg now tok d =
     (case jwt_decode cfg tok (SECRET_KEY cfg) [ALGORITHM cfg] now of
        Inl e \<Rightarrow> Inl credentials_exception
      | Inr payload \<Rightarrow>
          (case map_of payload ''sub'' of
             None \<Rightarrow> Inl credentials_exception
           | Some (JInt i) \<Rightarrow> Inl credentials_exception
           | Some (JStr email_arg) \<Rightarrow>
               (case get_user email_arg d of
                  None \<Rightarrow> Inl credentials_exception
                | Some user \<Rightarrow> Inr user)))"

definition is_admin_user :: "nat \<times> user_fields \<Rightarrow> HTTPException + (nat \<times> user_fields)" where
  "is_admin_user user =
     (if user_is_admin (snd user) \<noteq> Some True
      then Inl \<lparr>status_code = 403, detail = ''Not enough permissions'', headers = []\<rparr>
      else Inr user)"

section \<open>main.py: the handlers\<close>

text \<open>
  Each handler takes the parsed request body and the store and returns its result with
  the store it leaves. A body that does not parse into its model never reaches a handler
  and is not modelled. The dependencies of an endpoint (\<open>Depends\<close>) are applied in
  \<open>handle\<close> below, before the handler runs.
\<close>

definition create_user :: "string \<Rightarrow> UserCreate \<Rightarrow> db \<Rightarrow> (HTTPException + UserResponse) \<times> db" where
  "create_user salt user d =
     (case get_password_hash salt (password user) of
        None \<Rightarrow> (Inl internal_server_error, d)
      | Some hashed \<Rightarrow>
          (let user_dict = \<lparr>user_username = username user, user_email = email user,
                            user_password = hashed,
                            user_phone = phone user, user_is_admin = is_admin user\<rparr>;
               d' = d\<lparr>users_collection := insert_one user_dict (next_oid d) (users_collection d),
                      next_oid := Suc (next_oid d)\<rparr>
           in (Inr \<lparr>resp_username = user_username user_dict, resp_email = user_email user_dict,
                    resp_phone = user_phone user_dict, resp_is_admin = user_is_admin user_dict\<rparr>,
               d')))"

record TokenResponse =
  access_token :: token
  token_type :: string

definition login_for_access_token ::
  "env \<Rightarrow> int \<Rightarrow> string \<Rightarrow> string \<Rightarrow> db \<Rightarrow> (HTTPException + TokenResponse) \<times> db" where
  "login_for_access_token cfg now form_username form_password d =
     (case authenticate_user form_username form_password d of
        Raised \<Rightarrow> (Inl internal_server_error, d)
      | Rejected \<Rightarrow>
          (Inl \<lparr>status_code = 401, detail = ''Incorrect username or password'',
                headers = [(''WWW-Authenticate'', ''Bearer'')]\<rparr>, d)
      | Authenticated user \<Rightarrow>
          (case timedelta_minutes (ACCESS_TOKEN_EXPIRE_MINUTES cfg) of
             None \<Rightarrow> (Inl internal_server_error, d)
           | Some access_token_expires \<Rightarrow>
               (case create_access_token cfg [(''sub'', JStr (user_email (snd user)))]
                       (Some access_token_expires) now of
                  None \<Rightarrow> (Inl internal_server_error, d)
                | Some tok \<Rightarrow> (Inr \<lparr>access_token = tok, token_type = ''bearer''\<rparr>, d))))"

definition create_cinema_hall :: "CinemaHallCreate \<Rightarrow> db \<Rightarrow> (HTTPException + CinemaHallCreate) \<times> db" where
  "create_cinema_hall hall d =
     (Inr hall,
      d\<lparr>cinema_halls_collection := insert_one hall (next_oid d) (cinema_halls_collection d),
        next_oid := Suc (next_oid d)\<rparr>)"

definition create_screen :: "ScreenCreate \<Rightarrow> db \<Rightarrow> (HTTPException + ScreenCreate) \<times> db" where
  "create_screen screen d =
     (case bson_int (total_seats screen) of
        None \<Rightarrow> (Inl internal_server_error, d)
      | Some seats \<Rightarrow>
          (let screen_dict = \<lparr>scr_hall_id = hall_id screen, scr_name = screen_name screen,
                              scr_total_seats = seats\<rparr>
           in (Inr screen,
               d\<lparr>screens_collection := insert_one screen_dict (next_oid d) (screens_collection d),
                 next_oid := Suc (next_oid d)\<rparr>)))"

definition create_show :: "ShowCreate \<Rightarrow> db \<Rightarrow> (HTTPException + ShowCreate) \<times> db" where
  "create_show show d =
     (Inr show,
      d\<lparr>shows_collection := insert_one show (next_oid d) (shows_collection d),
        next_oid := Suc (next_oid d)\<rparr>)"

definition create_movie :: "MovieCreate \<Rightarrow> db \<Rightarrow> (HTTPException + MovieCreate) \<times> db" where
  "create_movie movie d =
     (case bson_int (duration movie) of
        None \<Rightarrow> (Inl internal_server_error, d)
      | Some minutes \<Rightarrow>
          (let movie_dict = \<lparr>movie_title = Some (title movie), movie_genre = Some (genre movie),
                             movie_rating = Some (rating movie), movie_duration = Some minutes,
                             movie_release_date = Some (release_date movie)\<rparr>
           in (Inr movie,
               d\<lparr>movies_collection := insert_one movie_dict (next_oid d) (movies_collection d),
                 next_oid := Suc (next_oid d)\<rparr>)))"

text \<open>
  \<open>MovieCreate(**movie)\<close> on a stored movie: every field must hold a value, or the
  validation error becomes a 500.
\<close>

definition to_MovieCreate :: "movie_fields \<Rightarrow> MovieCreate option" where
  "to_MovieCreate m =
     (case (movie_title m, movie_genre m, movie_rating m, movie_duration m, movie_release_date m) of
        (Some t, Some g, Some r, Some du, Some rd) \<Rightarrow>
          Some \<lparr>title = t, genre = g, rating = r, duration = sint du, release_date = rd\<rparr>
      | _ \<Rightarrow> None)"

definition not_found :: HTTPException where
  "not_found = \<lparr>status_code = 404, detail = ''Movie not found'', headers = []\<rparr>"

definition read_movie :: "string \<Rightarrow> db \<Rightarrow> (HTTPException + MovieCreate) \<times> db" where
  "read_movie ident d =
     (case ObjectId ident of
        None \<Rightarrow> (Inl internal_server_error, d)
      | Some oid \<Rightarrow>
          (case find_one (has_id oid) (movies_collection d) of
             None \<Rightarrow> (Inl not_found, d)
           | Some movie \<Rightarrow>
               (case to_MovieCreate (snd movie) of
                  None \<Rightarrow> (Inl internal_server_error, d)
                | Some r \<Rightarrow> (Inr r, d))))"

text \<open>
  The \<open>$set\<close> document of \<open>update_movie\<close>: the fields present in the body, as the store
  holds them; \<open>None\<close> when a duration cannot be encoded.
\<close>

definition set_duration :: "MovieUpdate \<Rightarrow> 64 word option option option" where
  "set_duration movie =
     (case upd_duration movie of
        None \<Rightarrow> Some None
      | Some None \<Rightarrow> Some (Some None)
      | Some (Some n) \<Rightarrow> (case bson_int n of None \<Rightarrow> None | Some w \<Rightarrow> Some (Some (Some w))))"

definition apply_set :: "MovieUpdate \<Rightarrow> 64 word option option \<Rightarrow> movie_fields \<Rightarrow> movie_fields" where
  "apply_set movie dur m =
     \<lparr>movie_title = (case upd_title movie of None \<Rightarrow> movie_title m | Some v \<Rightarrow> v),
      movie_genre = (case upd_genre movie of None \<Rightarrow> movie_genre m | Some v \<Rightarrow> v),
      movie_rating = (case upd_rating movie of None \<Rightarrow> movie_rating m | Some v \<Rightarrow> v),
      movie_duration = (case dur of None \<Rightarrow> movie_duration m | Some v \<Rightarrow> v),
      movie_release_date =
        (case upd_release_date movie of None \<Rightarrow> movie_release_date m | Some v \<Rightarrow> v)\<rparr>"

definition update_movie :: "string \<Rightarrow> MovieUpdate \<Rightarrow> db \<Rightarrow> (HTTPException + string) \<times> db" where
  "update_movie ident movie d =
     (case ObjectId ident of
        None \<Rightarrow> (Inl internal_server_error, d)
      | Some oid \<Rightarrow>
          (case set_duration movie of
             None \<Rightarrow> (Inl internal_server_error, d)
           | Some dur \<Rightarrow>
               (case update_one (has_id oid) (apply_set movie dur) (movies_collection d) of
                  (matched_count, movies') \<Rightarrow>
                    if matched_count = 0 then (Inl not_found, d\<lparr>movies_collection := movies'\<rparr>)
                    else (Inr ''Movie updated'', d\<lparr>movies_collection := movies'\<rparr>))))"

definition delete_movie :: "string \<Rightarrow> db \<Rightarrow> (HTTPException + string) \<times> db" where
  "delete_movie ident d =
     (case ObjectId ident of
        None \<Rightarrow> (Inl internal_server_error, d)
      | Some oid \<Rightarrow>
          (case delete_one (has_id oid) (movies_collection d) of
             (deleted_count, movies') \<Rightarrow>
               if deleted_count = 0 then (Inl not_found, d\<lparr>movies_collection := movies'\<rparr>)
               else (Inr ''Movie and related shows deleted'',
                     d\<lparr>movies_collection := movies',
                       shows_collection :=
                         delete_many (\<lambda>s. movie_id (snd s) = ident) (shows_collection d)\<rparr>)))"

subsection \<open>Searches\<close>

text \<open>
  The query \<open>search_movies\<close> builds: a case-insensitive regular expression on the
  title, an equality on the genre, and on the rating either \<open>{"$gte": rating}\<close> or the
  plain value (an equality). A test such as \<open>if title\<close> is false for \<open>None\<close>, for the
  empty string and for the number zero. A stored null matches none of the three.
\<close>

datatype rating_filter = Gte real | Equals real

record movie_query =
  q_title :: "string option"
  q_genre :: "string option"
  q_rating :: "rating_filter option"

definition movies_query :: "string option \<Rightarrow> string option \<Rightarrow> real option \<Rightarrow> movie_query" where
  "movies_query title_arg genre_arg rating_arg =
     \<lparr>q_title = (case title_arg of
                   Some t \<Rightarrow> if t \<noteq> [] then Some t else None
                 | None \<Rightarrow> None),
      q_genre = (case genre_arg of
                   Some g \<Rightarrow> if g \<noteq> [] then Some g else None
                 | None \<Rightarrow> None),
      q_rating = (case rating_arg of
                    Some r \<Rightarrow> if r \<noteq> 0 then Some (if r \<ge> 4 then Gte r else Equals r) else None
                  | None \<Rightarrow> None)\<rparr>"

fun rating_matches :: "rating_filter \<Rightarrow> real option \<Rightarrow> bool" where
  "rating_matches f None = False"
| "rating_matches (Gte r) (Some x) = (x \<ge> r)"
| "rating_matches (Equals r) (Some x) = (x = r)"

definition title_matches :: "env \<Rightarrow> string option \<Rightarrow> movie_fields \<Rightarrow> bool" where
  "title_matches cfg q m =
     (case q of
        None \<Rightarrow> True
      | Some pat \<Rightarrow> (case movie_title m of None \<Rightarrow> False | Some t \<Rightarrow> regex_search cfg pat t))"

definition genre_matches :: "string option \<Rightarrow> movie_fields \<Rightarrow> bool" where
  "genre_matches q m = (case q of None \<Rightarrow> True | Some g \<Rightarrow> movie_genre m = Some g)"

definition movie_matches :: "env \<Rightarrow> movie_query \<Rightarrow> nat \<times> movie_fields \<Rightarrow> bool" where
  "movie_matches cfg query m =
     (title_matches cfg (q_title query) (snd m) \<and> genre_matches (q_genre query) (snd m) \<and>
      (case q_rating query of None \<Rightarrow> True | Some f \<Rightarrow> rating_matches f (movie_rating (snd m))))"

definition to_MovieSearchResponse :: "nat \<times> movie_fields \<Rightarrow> MovieSearchResponse option" where
  "to_MovieSearchResponse movie =
     (case to_MovieCreate (snd movie) of
        None \<Rightarrow> None
      | Some m \<Rightarrow>
          Some \<lparr>msr_movie_id = str_oid (fst movie), msr_title = title m, msr_genre = genre m,
                msr_rating = rating m, msr_duration = duration m,
                msr_release_date = release_date m\<rparr>)"

definition search_movies ::
  "env \<Rightarrow> string option \<Rightarrow> string option \<Rightarrow> real option \<Rightarrow> db \<Rightarrow>
   (HTTPException + MovieSearchResponse list) \<times> db" where
  "search_movies cfg title_arg genre_arg rating_arg d =
     (let query = movies_query title_arg genre_arg rating_arg in
      if (case q_title query of Some pat \<Rightarrow> \<not> regex_valid cfg pat | None \<Rightarrow> False)
      then (Inl internal_server_error, d)
      else
        (let movies = find_to_list (movie_matches cfg query) 100 (movies_collection d) in
         case those (map to_MovieSearchResponse movies) of
           None \<Rightarrow> (Inl internal_server_error, d)
         | Some rs \<Rightarrow> (Inr rs, d)))"

text \<open>
  \<open>search_shows\<close>: \<open>show_time\<close> is a calendar day (days since the epoch); the query
  asks for the shows from its first millisecond up to, not including, its last.
\<close>

record show_query =
  sq_movie_id :: "string option"
  sq_show_time :: "(int \<times> int) option"

definition shows_query :: "string option \<Rightarrow> int option \<Rightarrow> show_query" where
  "shows_query movie_id_arg show_time_arg =
     \<lparr>sq_movie_id = (case movie_id_arg of
                       Some m \<Rightarrow> if m \<noteq> [] then Some m else None
                     | None \<Rightarrow> None),
      sq_show_time = (case show_time_arg of
                        Some day \<Rightarrow>
                          (let start_of_day = day * 86400000;
                               end_of_day = day * 86400000 + 86399999
                           in Some (start_of_day, end_of_day))
                      | None \<Rightarrow> None)\<rparr>"

definition show_matches :: "show_query \<Rightarrow> nat \<times> ShowCreate \<Rightarrow> bool" where
  "show_matches query s =
     ((case sq_movie_id query of None \<Rightarrow> True | Some m \<Rightarrow> movie_id (snd s) = m) \<and>
      (case sq_show_time query of
         None \<Rightarrow> True
       | Some (lo, hi) \<Rightarrow> lo \<le> show_time (snd s) \<and> show_time (snd s) < hi))"

text \<open>The loop over the shows found; \<open>None\<close> when \<open>ObjectId\<close> raises on a show's movie.\<close>

fun shows_with_titles :: "movie_fields collection \<Rightarrow> ShowCreate collection \<Rightarrow> ShowResponse list option" where
  "shows_with_titles movies [] = Some []"
| "shows_with_titles movies (show # rest) =
     (case ObjectId (movie_id (snd show)) of
        None \<Rightarrow> None
      | Some oid \<Rightarrow>
          (let movie = find_one (has_id oid) movies;
               r = \<lparr>sr_show_id = str_oid (fst show), sr_movie_id = movie_id (snd show),
                    sr_screen_id = screen_id (snd show), sr_show_time = show_time (snd show),
                    sr_movie_title = (case movie of Some m \<Rightarrow> movie_title (snd m) | None \<Rightarrow> None)\<rparr>
           in case shows_with_titles movies rest of
                None \<Rightarrow> None
              | Some rs \<Rightarrow> Some (r # rs)))"

definition search_shows ::
  "string option \<Rightarrow> int option \<Rightarrow> db \<Rightarrow> (HTTPException + ShowResponse list) \<times> db" where
  "search_shows movie_id_arg show_time_arg d =
     (let query = shows_query movie_id_arg show_time_arg;
          shows = find_to_list (show_matches query) 100 (shows_collection d)
      in case shows_with_titles (movies_collection d) shows of
           None \<Rightarrow> (Inl internal_server_error, d)
         | Some rs \<Rightarrow> (Inr rs, d))"

text \<open>The list a search returned; empty when it raised.\<close>

definition results :: "(HTTPException + 'a list) \<times> db \<Rightarrow> 'a list" where
  "results res = (case fst res of Inl e \<Rightarrow> [] | Inr rs \<Rightarrow> rs)"

subsection \<open>The booking\<close>

text \<open>
  The filter of the upsert: the stored show and seat equal those of the request.
\<close>

definition seat_filter :: "string \<Rightarrow> int \<Rightarrow> nat \<times> booking_fields \<Rightarrow> bool" where
  "seat_filter sid seat b = (bk_show_id (snd b) = sid \<and> sint (bk_seat_number (snd b)) = seat)"

definition seat_taken :: HTTPException where
  "seat_taken = \<lparr>status_code = 400, detail = ''Seat already booked'', headers = []\<rparr>"

text \<open>
  The document \<open>booking_dict\<close> as the driver encodes it for the store; \<open>None\<close> when
  the seat number is outside the store's integers and the driver raises.
\<close>

definition encode_booking :: "BookingCreate \<Rightarrow> booking_fields option" where
  "encode_booking booking_dict =
     (case bson_int (seat_number booking_dict) of
        None \<Rightarrow> None
      | Some seat \<Rightarrow>
          Some \<lparr>bk_show_id = show_id booking_dict, bk_user_id = user_id booking_dict,
                bk_seat_number = seat\<rparr>)"

definition create_booking ::
  "BookingCreate \<Rightarrow> nat \<times> user_fields \<Rightarrow> db \<Rightarrow> (HTTPException + string) \<times> db" where
  "create_booking booking current_user d =
     (let booking_dict = booking\<lparr>user_id := str_oid (fst current_user)\<rparr> in
      case encode_booking booking_dict of
        None \<Rightarrow> (Inl internal_server_error, d)
      | Some doc \<Rightarrow>
          (case find_one_and_update
                  (seat_filter (show_id booking_dict) (seat_number booking_dict))
                  doc (next_oid d) (bookings_collection d) of
             (result, bookings') \<Rightarrow>
               if result \<noteq> None then (Inl seat_taken, d\<lparr>bookings_collection := bookings'\<rparr>)
               else (Inr ''Booking successful'',
                     d\<lparr>bookings_collection := bookings', next_oid := Suc (next_oid d)\<rparr>)))"

section \<open>main.py: the routes\<close>

text \<open>
  One constructor per route, carrying the parsed path, query and body parameters.
\<close>

datatype request =
    Create_user UserCreate
  | Login_for_access_token string string
  | Create_cinema_hall CinemaHallCreate
  | Create_screen ScreenCreate
  | Create_show ShowCreate
  | Create_movie MovieCreate
  | Read_movie string
  | Update_movie string MovieUpdate
  | Delete_movie string
  | Search_movies "string option" "string option" "real option"
  | Search_shows "string option" "int option"
  | Create_booking BookingCreate

datatype response =
    UserBody UserResponse
  | TokenBody TokenResponse
  | HallBody CinemaHallCreate
  | ScreenBody ScreenCreate
  | ShowBody ShowCreate
  | MovieBody MovieCreate
  | Message string
  | MovieList "MovieSearchResponse list"
  | ShowList "ShowResponse list"

definition respond :: "('a \<Rightarrow> response) \<Rightarrow> (HTTPException + 'a) \<times> db \<Rightarrow> (HTTPException + response) \<times> db" where
  "respond f res = (case res of (Inl e, d) \<Rightarrow> (Inl e, d) | (Inr x, d) \<Rightarrow> (Inr (f x), d))"

text \<open>
  \<open>Depends(get_current_user)\<close>, with its own dependency on \<open>oauth2_scheme\<close>, and
  \<open>Depends(is_admin_user)\<close>, which depends on \<open>get_current_user\<close>.
\<close>

definition current_user_dep ::
  "env \<Rightarrow> int \<Rightarrow> authorization option \<Rightarrow> db \<Rightarrow> HTTPException + (nat \<times> user_fields)" where
  "current_user_dep cfg now auth d =
     (case oauth2_scheme auth of
        Inl e \<Rightarrow> Inl e
      | Inr tok \<Rightarrow> get_current_user cfg now tok d)"

definition admin_dep ::
  "env \<Rightarrow> int \<Rightarrow> authorization option \<Rightarrow> db \<Rightarrow> HTTPException + (nat \<times> user_fields)" where
  "admin_dep cfg now auth d =
     (case current_user_dep cfg now auth d of
        Inl e \<Rightarrow> Inl e
      | Inr user \<Rightarrow> is_admin_user user)"

text \<open>
  A request is handled at clock reading \<open>now\<close> (seconds), with \<open>salt\<close> the salt drawn
  should a password be hashed, and \<open>auth\<close> its \<open>Authorization\<close> header. A dependency
  that raises ends the request before the handler runs.
\<close>

fun handle ::
  "env \<Rightarrow> int \<Rightarrow> string \<Rightarrow> authorization option \<Rightarrow> request \<Rightarrow> db \<Rightarrow> (HTTPException + response) \<times> db" where
  "handle cfg now salt auth (Create_user user) d = respond UserBody (create_user salt user d)"
| "handle cfg now salt auth (Login_for_access_token u p) d =
     respond TokenBody (login_for_access_token cfg now u p d)"
| "handle cfg now salt auth (Create_cinema_hall hall) d =
     (case admin_dep cfg now auth d of
        Inl e \<Rightarrow> (Inl e, d)
      | Inr user \<Rightarrow> respond HallBody (create_cinema_hall hall d))"
| "handle cfg now salt auth (Create_screen screen) d =
     (case admin_dep cfg now auth d of
        Inl e \<Rightarrow> (Inl e, d)
      | Inr user \<Rightarrow> respond ScreenBody (create_screen screen d))"
| "handle cfg now salt auth (Create_show show) d =
     (case admin_dep cfg now auth d of
        Inl e \<Rightarrow> (Inl e, d)
      | Inr user \<Rightarrow> respond ShowBody (create_show show d))"
| "handle cfg now salt auth (Create_movie movie) d =
     (case admin_dep cfg now auth d of
        Inl e \<Rightarrow> (Inl e, d)
      | Inr user \<Rightarrow> respond MovieBody (create_movie movie d))"
| "handle cfg now salt auth (Read_movie ident) d =
     (case current_user_dep cfg now auth d of
        Inl e \<Rightarrow> (Inl e, d)
      | Inr current_user \<Rightarrow> respond MovieBody (read_movie ident d))"
| "handle cfg now salt auth (Update_movie ident movie) d =
     (case admin_dep cfg now auth d of
        Inl e \<Rightarrow> (Inl e, d)
      | Inr user \<Rightarrow> respond Message (update_movie ident movie d))"
| "handle cfg now salt auth (Delete_movie ident) d =
     (case admin_dep cfg now auth d of
        Inl e \<Rightarrow> (Inl e, d)
      | Inr user \<Rightarrow> respond Message (delete_movie ident d))"
| "handle cfg now salt auth (Search_movies t g r) d =
     (case current_user_dep cfg now auth d of
        Inl e \<Rightarrow> (Inl e, d)
      | Inr current_user \<Rightarrow> respond MovieList (search_movies cfg t g r d))"
| "handle cfg now salt auth (Search_shows m t) d =
     (case current_user_dep cfg now auth d of
        Inl e \<Rightarrow> (Inl e, d)
      | Inr current_user \<Rightarrow> respond ShowList (search_shows m t d))"
| "handle cfg now salt auth (Create_booking booking) d =
     (case current_user_dep cfg now auth d of
        Inl e \<Rightarrow> (Inl e, d)
      | Inr current_user \<Rightarrow> respond Message (create_booking booking current_user d))"

text \<open>The routes that carry \<open>dependencies=[Depends(is_admin_user)]\<close>, and the routes
  that depend on \<open>get_current_user\<close> at all.\<close>

fun admin_route :: "request \<Rightarrow> bool" where
  "admin_route (Create_cinema_hall hall) = True"
| "admin_route (Create_screen screen) = True"
| "admin_route (Create_show show) = True"
| "admin_route (Create_movie movie) = True"
| "admin_route (Update_movie ident movie) = True"
| "admin_route (Delete_movie ident) = True"
| "admin_route r = False"

fun authenticated_route :: "request \<Rightarrow> bool" where
  "authenticated_route (Create_user user) = False"
| "authenticated_route (Login_for_access_token u p) = False"
| "authenticated_route r = True"

text \<open>A request as it arrives: clock reading, salt, header and route.\<close>

type_synonym arrival = "int \<times> string \<times> authorization option \<times> request"

fun run :: "env \<Rightarrow> arrival list \<Rightarrow> db \<Rightarrow> db" where
  "run cfg [] d = d"
| "run cfg ((now, salt, auth, r) # rs) d = run cfg rs (snd (handle cfg now salt auth r d))"

section \<open>Concurrent bookings\<close>

text \<open>
  A booking request in flight. The server suspends a request at each storage call and
  may run another meanwhile, so a request advances in steps: the user lookup of
  \<open>get_current_user\<close>; then the upsert of \<open>create_booking\<close>, which the store runs
  as its query followed, when nothing matched, by its insert. A request that waits for
  the insert holds the document to insert.
\<close>

datatype task =
    Waiting int "authorization option" BookingCreate
  | Resolved "nat \<times> user_fields" BookingCreate
  | Inserting booking_fields
  | Finished "HTTPException + string"

fun task_step :: "env \<Rightarrow> task \<Rightarrow> db \<Rightarrow> task \<times> db" where
  "task_step cfg (Waiting now auth booking) d =
     (case current_user_dep cfg now auth d of
        Inl e \<Rightarrow> (Finished (Inl e), d)
      | Inr current_user \<Rightarrow> (Resolved current_user booking, d))"
| "task_step cfg (Resolved current_user booking) d =
     (let booking_dict = booking\<lparr>user_id := str_oid (fst current_user)\<rparr> in
      case encode_booking booking_dict of
        None \<Rightarrow> (Finished (Inl internal_server_error), d)
      | Some doc \<Rightarrow>
          (case upsert_query (seat_filter (show_id booking_dict) (seat_number booking_dict))
                  (bookings_collection d) of
             Some found \<Rightarrow> (Finished (Inl seat_taken), d)
           | None \<Rightarrow> (Inserting doc, d)))"
| "task_step cfg (Inserting doc) d =
     (Finished (Inr ''Booking successful''),
      d\<lparr>bookings_collection := upsert_insert doc (next_oid d) (bookings_collection d),
        next_oid := Suc (next_oid d)\<rparr>)"
| "task_step cfg (Finished res) d = (Finished res, d)"

record system =
  sys_db :: db
  tasks :: "task list"

definition sched_step :: "env \<Rightarrow> nat \<Rightarrow> system \<Rightarrow> system" where
  "sched_step cfg i sys =
     (if i < length (tasks sys)
      then (case task_step cfg (tasks sys ! i) (sys_db sys) of
              (t', d') \<Rightarrow> \<lparr>sys_db = d', tasks = (tasks sys)[i := t']\<rparr>)
      else sys)"

fun interleave :: "env \<Rightarrow> nat list \<Rightarrow> system \<Rightarrow> system" where
  "interleave cfg [] sys = sys"
| "interleave cfg (i # sched) sys = interleave cfg sched (sched_step cfg i sys)"

text \<open>The records of the bookings store for one seat of one show.\<close>

definition bookings_for :: "string \<Rightarrow> int \<Rightarrow> db \<Rightarrow> booking_fields collection" where
  "bookings_for sid seat d = filter (seat_filter sid seat) (bookings_collection d)"

section \<open>Example data\<close>

text \<open>A configuration with an HMAC key; numbers in claims written in plain digits.\<close>

definition digits :: "string \<Rightarrow> int option" where
  "digits s =
     (if s \<noteq> [] \<and> list_all (\<lambda>c. 48 \<le> (of_char c :: nat) \<and> (of_char c :: nat) \<le> 57) s
      then Some (foldl (\<lambda>a c. 10 * a + int (of_char c - 48)) 0 s)
      else None)"

definition cfg0 :: env where
  "cfg0 = \<lparr>SECRET_KEY = ''k3y'', ALGORITHM = ''HS256'', ACCESS_TOKEN_EXPIRE_MINUTES = 30,
           regex_valid = (\<lambda>pat. True), regex_search = (\<lambda>pat txt. pat = txt),
           can_sign = True, can_verify = True, int_of_str = digits\<rparr>"

definition alice :: UserCreate where
  "alice = \<lparr>username = ''alice'', email = ''alice@example.com'', password = ''pw-a'',
            phone = ''100'', is_admin = Some False\<rparr>"

definition bob :: UserCreate where
  "bob = \<lparr>username = ''bob'', email = ''bob@example.com'', password = ''pw-b'',
          phone = ''200'', is_admin = Some True\<rparr>"




definition db2 :: db where
  "db2 = snd (create_user ''s2'' bob (snd (create_user ''s1'' alice empty_db)))"

definition token_for :: "string \<Rightarrow> token" where
  "token_for e = JWS [(''sub'', JStr e), (''exp'', JInt 2800)] ''k3y'' ''HS256''"

definition seat5 :: BookingCreate where
  "seat5 = \<lparr>show_id = ''show-1'', user_id = ''anyone'', seat_number = 5\<rparr>"


definition two_bookers :: "task list" where
  "two_bookers =
     [Waiting 1500 (Some (Bearer (token_for ''alice@example.com''))) seat5,
      Waiting 1500 (Some (Bearer (token_for ''bob@example.com''))) seat5]"

definition screen1 :: ScreenCreate where
  "screen1 = \<lparr>hall_id = str_oid 9, screen_name = ''Screen 1'', total_seats = 40\<rparr>"

definition film :: "string \<Rightarrow> real \<Rightarrow> MovieCreate" where
  "film t r = \<lparr>title = t, genre = ''drama'', rating = r, duration = 120, release_date = 0\<rparr>"

definition db_films :: db where
  "db_films =
     snd (create_movie (film ''Gamma'' 4.5)
       (snd (create_movie (film ''Beta'' 4)
         (snd (create_movie (film ''Alpha'' 3.5) empty_db)))))"

definition db3 :: db where
  "db3 = snd (create_booking seat5 (hd (users_collection db2)) db2)"


section \<open>The bookings store, one request at a time\<close>

lemma sint_word_of_int_64:
  assumes "- (2 ^ 63) \<le> n" and "n < 2 ^ 63"
  shows "sint (word_of_int n :: 64 word) = n"
proof -
  from assms have "signed_take_bit 63 n = n"
    by (intro signed_take_bit_int_eq_self) simp_all
  then show ?thesis
    by (simp only: sint_sbintrunc') simp
qed

lemma bson_int_sint: "bson_int n = Some w \<Longrightarrow> sint w = n"
  by (auto simp: bson_int_def sint_word_of_int_64 simp del: sint_sbintrunc split: if_splits)

lemma bson_int_of_sint: "bson_int (sint (w :: 64 word)) = Some w"
  using sint_ge [of w] sint_lt [of w] by (simp add: bson_int_def)


lemma find_one_None_iff: "find_one flt c = None \<longleftrightarrow> filter flt c = []"
  by (induction c) (auto simp: find_one_def)

lemma stored_seat_encodes:
  assumes "bookings_for sid seat d \<noteq> []"
  shows "\<exists>w. bson_int seat = Some w"
proof -
  from assms obtain x where "x \<in> set (bookings_collection d)" and "seat_filter sid seat x"
    by (auto simp: bookings_for_def filter_empty_conv)
  then have "sint (bk_seat_number (snd x)) = seat"
    by (simp add: seat_filter_def)
  with bson_int_of_sint [of "bk_seat_number (snd x)"] show ?thesis
    by auto
qed

lemma create_booking_taken:
  assumes "bookings_for (show_id b) (seat_number b) d \<noteq> []"
  shows "create_booking b u d = (Inl seat_taken, d)"
proof -
  from stored_seat_encodes [OF assms] obtain w where "bson_int (seat_number b) = Some w"
    by blast
  moreover from assms
  have "find_one (seat_filter (show_id b) (seat_number b)) (bookings_collection d) \<noteq> None"
    by (simp add: find_one_None_iff bookings_for_def)
  ultimately show ?thesis
    by (auto simp: create_booking_def encode_booking_def find_one_and_update_def upsert_query_def)
qed

lemma create_booking_free:
  assumes "bson_int (seat_number b) = Some w"
    and "bookings_for (show_id b) (seat_number b) d = []"
  shows "create_booking b u d =
     (Inr ''Booking successful'',
      d\<lparr>bookings_collection := bookings_collection d @
          [(next_oid d, \<lparr>bk_show_id = show_id b, bk_user_id = str_oid (fst u),
                         bk_seat_number = w\<rparr>)],
        next_oid := Suc (next_oid d)\<rparr>)"
proof -
  from assms(2)
  have "find_one (seat_filter (show_id b) (seat_number b)) (bookings_collection d) = None"
    by (simp add: find_one_None_iff bookings_for_def)
  with assms(1) show ?thesis
    by (simp add: create_booking_def encode_booking_def find_one_and_update_def upsert_query_def
        upsert_insert_def insert_one_def)
qed

lemma create_booking_overflow:
  "bson_int (seat_number b) = None \<Longrightarrow> create_booking b u d = (Inl internal_server_error, d)"
  by (simp add: create_booking_def encode_booking_def)

lemma bookings_for_create_booking:
  "bookings_for sid seat (snd (create_booking b u d)) = bookings_for sid seat d \<or>
   (bookings_for sid seat d = [] \<and>
    (\<exists>x. bookings_for sid seat (snd (create_booking b u d)) = [x]))"
proof (cases "bson_int (seat_number b)")
  case None
  then show ?thesis by (simp add: create_booking_overflow)
next
  case (Some w)
  show ?thesis
  proof (cases "bookings_for (show_id b) (seat_number b) d = []")
    case True
    have eq: "bookings_for sid seat (snd (create_booking b u d)) =
        bookings_for sid seat d @
          (if show_id b = sid \<and> seat_number b = seat
           then [(next_oid d, \<lparr>bk_show_id = show_id b, bk_user_id = str_oid (fst u),
                                 bk_seat_number = w\<rparr>)]
           else [])"
      by (simp add: create_booking_free [OF Some True] bookings_for_def seat_filter_def
          bson_int_sint [OF Some])
    show ?thesis
    proof (cases "show_id b = sid \<and> seat_number b = seat")
      case same: True
      with True have "bookings_for sid seat d = []" by auto
      with eq same show ?thesis by simp
    next
      case False
      with eq show ?thesis by simp
    qed
  next
    case False
    then show ?thesis by (simp add: create_booking_taken)
  qed
qed

lemma respond_snd: "snd (respond f res) = snd res"
  by (simp add: respond_def split: prod.splits sum.splits)

lemma create_user_bookings:
  "bookings_collection (snd (create_user salt user d)) = bookings_collection d"
  by (simp add: create_user_def Let_def split: option.splits)

lemma login_bookings:
  "bookings_collection (snd (login_for_access_token cfg now u p d)) = bookings_collection d"
  by (simp add: login_for_access_token_def split: authenticated.splits option.splits)

lemma create_cinema_hall_bookings:
  "bookings_collection (snd (create_cinema_hall hall d)) = bookings_collection d"
  by (simp add: create_cinema_hall_def)

lemma create_screen_bookings:
  "bookings_collection (snd (create_screen screen d)) = bookings_collection d"
  by (simp add: create_screen_def Let_def split: option.splits)

lemma create_show_bookings:
  "bookings_collection (snd (create_show show d)) = bookings_collection d"
  by (simp add: create_show_def)

lemma create_movie_bookings:
  "bookings_collection (snd (create_movie movie d)) = bookings_collection d"
  by (simp add: create_movie_def Let_def split: option.splits)

lemma read_movie_bookings:
  "bookings_collection (snd (read_movie ident d)) = bookings_collection d"
  by (simp add: read_movie_def split: option.splits)

lemma update_movie_bookings:
  "bookings_collection (snd (update_movie ident movie d)) = bookings_collection d"
  by (simp add: update_movie_def split: option.splits prod.splits)

lemma delete_movie_bookings:
  "bookings_collection (snd (delete_movie ident d)) = bookings_collection d"
  by (simp add: delete_movie_def split: option.splits prod.splits)

lemma search_movies_bookings:
  "bookings_collection (snd (search_movies cfg t g r d)) = bookings_collection d"
  by (simp add: search_movies_def Let_def split: option.splits)

lemma search_shows_bookings:
  "bookings_collection (snd (search_shows m t d)) = bookings_collection d"
  by (simp add: search_shows_def Let_def split: option.splits)

lemmas handler_bookings =
  create_user_bookings login_bookings create_cinema_hall_bookings create_screen_bookings
  create_show_bookings create_movie_bookings read_movie_bookings update_movie_bookings
  delete_movie_bookings search_movies_bookings search_shows_bookings

lemma bookings_handle:
  "bookings_collection (snd (handle cfg now salt auth r d)) = bookings_collection d \<or>
   (\<exists>b u. bookings_collection (snd (handle cfg now salt auth r d)) =
           bookings_collection (snd (create_booking b u d)))"
proof (cases r)
  case (Create_booking b)
  show ?thesis
  proof (cases "current_user_dep cfg now auth d")
    case (Inl e)
    with Create_booking show ?thesis by simp
  next
    case (Inr u)
    with Create_booking
    have "snd (handle cfg now salt auth r d) = snd (create_booking b u d)"
      by (simp add: respond_snd)
    then show ?thesis by metis
  qed
qed (simp_all add: respond_snd handler_bookings split: sum.splits)

lemma bookings_for_cong:
  "bookings_collection d' = bookings_collection d \<Longrightarrow> bookings_for sid seat d' = bookings_for sid seat d"
  by (simp add: bookings_for_def)

lemma bookings_for_handle:
  "bookings_for sid seat (snd (handle cfg now salt auth r d)) = bookings_for sid seat d \<or>
   (bookings_for sid seat d = [] \<and>
    (\<exists>x. bookings_for sid seat (snd (handle cfg now salt auth r d)) = [x]))"
proof -
  from bookings_handle [of cfg now salt auth r d]
  consider "bookings_collection (snd (handle cfg now salt auth r d)) = bookings_collection d"
    | b u where "bookings_collection (snd (handle cfg now salt auth r d)) =
           bookings_collection (snd (create_booking b u d))"
    by blast
  then show ?thesis
  proof cases
    case 1
    then have "bookings_for sid seat (snd (handle cfg now salt auth r d)) = bookings_for sid seat d"
      by (rule bookings_for_cong)
    then show ?thesis by (rule disjI1)
  next
    case 2
    then have "bookings_for sid seat (snd (handle cfg now salt auth r d)) =
      bookings_for sid seat (snd (create_booking b u d))"
      by (rule bookings_for_cong)
    with bookings_for_create_booking [of sid seat b u d] show ?thesis
      by simp
  qed
qed

lemma bookings_for_run:
  "length (bookings_for sid seat d) \<le> 1 \<Longrightarrow> length (bookings_for sid seat (run cfg rs d)) \<le> 1"
proof (induction rs arbitrary: d)
  case Nil
  then show ?case by simp
next
  case (Cons a rs)
  obtain now salt auth r where a: "a = (now, salt, auth, r)"
    by (cases a) auto
  from bookings_for_handle [of sid seat cfg now salt auth r d] Cons.prems
  have "length (bookings_for sid seat (snd (handle cfg now salt auth r d))) \<le> 1"
    by auto
  then show ?case
    using Cons.IH a by simp
qed


section \<open>Two bookings at once\<close>

text \<open>A request that runs alone goes through its steps to the result of the route.\<close>

lemma lone_task:
  "interleave cfg [0, 0, 0] \<lparr>sys_db = d, tasks = [Waiting now auth b]\<rparr> =
     \<lparr>sys_db = snd (handle cfg now salt auth (Create_booking b) d),
      tasks = [Finished (case fst (handle cfg now salt auth (Create_booking b) d) of
                           Inl e \<Rightarrow> Inl e | Inr r \<Rightarrow> Inr ''Booking successful'')]\<rparr>"
  by (auto simp: sched_step_def respond_def create_booking_def find_one_and_update_def Let_def
      split: sum.splits option.splits)

text \<open>
  C1, where the code departs from it. One request at a time, a seat never gets a second
  record (\<open>bookings_for_run\<close> above). Two requests for seat 5 of one show, from two
  users, whose upserts overlap: each runs its query before the other has inserted, both
  are answered "Booking successful", and the store holds two records for the seat.
\<close>

theorem concurrent_double_booking:
  "bookings_for ''show-1'' 5 db2 = [] \<and>
   tasks (interleave cfg0 [0, 1, 0, 1, 0, 1] \<lparr>sys_db = db2, tasks = two_bookers\<rparr>) =
     [Finished (Inr ''Booking successful''), Finished (Inr ''Booking successful'')] \<and>
   bookings_for ''show-1'' 5
     (sys_db (interleave cfg0 [0, 1, 0, 1, 0, 1] \<lparr>sys_db = db2, tasks = two_bookers\<rparr>)) =
     [(2, \<lparr>bk_show_id = ''show-1'', bk_user_id = str_oid 0, bk_seat_number = 5\<rparr>),
      (3, \<lparr>bk_show_id = ''show-1'', bk_user_id = str_oid 1, bk_seat_number = 5\<rparr>)]"
  by code_simp

section \<open>Booking a seat\<close>




text \<open>
  C3. When the store already holds a booking for the seat of the request,
  \<open>create_booking\<close> returns the store unchanged and raises the client error 400 with
  detail "Seat already booked"; so does the route, for any authenticated caller.
\<close>

theorem taken_seat_rejected:
  "bookings_for (show_id b) (seat_number b) d \<noteq> [] \<Longrightarrow>
   create_booking b u d =
     (Inl \<lparr>status_code = 400, detail = ''Seat already booked'', headers = []\<rparr>, d) \<and>
   (current_user_dep cfg now auth d = Inr u \<longrightarrow>
      handle cfg now salt auth (Create_booking b) d =
        (Inl \<lparr>status_code = 400, detail = ''Seat already booked'', headers = []\<rparr>, d))"
  by (simp add: create_booking_taken seat_taken_def respond_def)

theorem taken_seat_rejected_witness:
  "bookings_for (show_id seat5) (seat_number seat5) db3 \<noteq> [] \<and>
   current_user_dep cfg0 1500 (Some (Bearer (token_for ''bob@example.com''))) db3 =
     Inr (last (users_collection db3)) \<and>
   handle cfg0 1500 [] (Some (Bearer (token_for ''bob@example.com''))) (Create_booking seat5) db3 =
     (Inl \<lparr>status_code = 400, detail = ''Seat already booked'', headers = []\<rparr>, db3) \<and>
   map (\<lambda>b. bk_user_id (snd b)) (bookings_collection db3) = [str_oid 0]"
proof -
  have "bookings_for (show_id seat5) (seat_number seat5) db3 =
      [(2, \<lparr>bk_show_id = ''show-1'', bk_user_id = str_oid 0, bk_seat_number = 5\<rparr>)]"
    by code_simp
  then have h: "bookings_for (show_id seat5) (seat_number seat5) db3 \<noteq> []"
    by simp
  have u: "current_user_dep cfg0 1500 (Some (Bearer (token_for ''bob@example.com''))) db3 =
     Inr (last (users_collection db3))"
    by code_simp
  have r: "handle cfg0 1500 [] (Some (Bearer (token_for ''bob@example.com''))) (Create_booking seat5) db3 =
     (Inl \<lparr>status_code = 400, detail = ''Seat already booked'', headers = []\<rparr>, db3)"
    by (rule mp [OF conjunct2 [OF taken_seat_rejected [OF h]] u])
  have k: "map (\<lambda>b. bk_user_id (snd b)) (bookings_collection db3) = [str_oid 0]"
    by code_simp
  from h u r k show ?thesis by blast
qed

lemma create_booking_user_id:
  "create_booking (b\<lparr>user_id := x\<rparr>) u d = create_booking b u d"
  by (simp add: create_booking_def)

text \<open>
  C4. The \<open>user_id\<close> of the request body has no influence: two booking requests that
  differ in it alone get the same response and leave the same store. The record a
  successful booking appends carries the identifier of the user the token resolved to
  (and the seat number of the request).
\<close>

theorem booking_user_from_token:
  "handle cfg now salt auth (Create_booking (b\<lparr>user_id := x\<rparr>)) d =
     handle cfg now salt auth (Create_booking b) d \<and>
   (current_user_dep cfg now auth d = Inr u \<and>
    fst (handle cfg now salt auth (Create_booking b) d) = Inr (Message ''Booking successful'') \<longrightarrow>
      bookings_collection (snd (handle cfg now salt auth (Create_booking b) d)) =
        bookings_collection d @
          [(next_oid d, \<lparr>bk_show_id = show_id b, bk_user_id = str_oid (fst u),
                         bk_seat_number = word_of_int (seat_number b)\<rparr>)] \<and>
      sint (word_of_int (seat_number b) :: 64 word) = seat_number b)"
proof (intro conjI impI)
  show "handle cfg now salt auth (Create_booking (b\<lparr>user_id := x\<rparr>)) d =
     handle cfg now salt auth (Create_booking b) d"
    by (simp add: create_booking_user_id cong: sum.case_cong)
next
  assume "current_user_dep cfg now auth d = Inr u \<and>
    fst (handle cfg now salt auth (Create_booking b) d) = Inr (Message ''Booking successful'')"
  then have a: "current_user_dep cfg now auth d = Inr u"
    "fst (handle cfg now salt auth (Create_booking b) d) = Inr (Message ''Booking successful'')"
    by blast+
  have ok: "\<exists>w. bson_int (seat_number b) = Some w"
  proof (cases "bson_int (seat_number b)")
    case None
    with a show ?thesis
      by (simp add: create_booking_overflow respond_def)
  qed simp
  then have enc: "bson_int (seat_number b) = Some (word_of_int (seat_number b))"
    by (auto simp: bson_int_def split: if_splits)
  from bson_int_sint [OF enc]
  show "sint (word_of_int (seat_number b) :: 64 word) = seat_number b" .
  show "bookings_collection (snd (handle cfg now salt auth (Create_booking b) d)) =
        bookings_collection d @
          [(next_oid d, \<lparr>bk_show_id = show_id b, bk_user_id = str_oid (fst u),
                         bk_seat_number = word_of_int (seat_number b)\<rparr>)]"
  proof (cases "bookings_for (show_id b) (seat_number b) d = []")
    case True
    with a enc show ?thesis
      by (simp add: create_booking_free respond_def)
  next
    case False
    with a show ?thesis
      by (simp add: create_booking_taken respond_def seat_taken_def)
  qed
qed

theorem booking_user_from_token_witness:
  "current_user_dep cfg0 1500 (Some (Bearer (token_for ''alice@example.com''))) db2 =
     Inr (hd (users_collection db2)) \<and>
   fst (handle cfg0 1500 [] (Some (Bearer (token_for ''alice@example.com'')))
         (Create_booking seat5) db2) = Inr (Message ''Booking successful'') \<and>
   bookings_collection (snd (handle cfg0 1500 [] (Some (Bearer (token_for ''alice@example.com'')))
         (Create_booking seat5) db2)) =
     bookings_collection db2 @
       [(next_oid db2, \<lparr>bk_show_id = show_id seat5,
                         bk_user_id = str_oid (fst (hd (users_collection db2))),
                         bk_seat_number = word_of_int (seat_number seat5)\<rparr>)] \<and>
   user_id seat5 \<noteq> str_oid (fst (hd (users_collection db2)))"
proof -
  have u: "current_user_dep cfg0 1500 (Some (Bearer (token_for ''alice@example.com''))) db2 =
     Inr (hd (users_collection db2))"
    by code_simp
  have s: "fst (handle cfg0 1500 [] (Some (Bearer (token_for ''alice@example.com'')))
         (Create_booking seat5) db2) = Inr (Message ''Booking successful'')"
    by code_simp
  have r: "bookings_collection (snd (handle cfg0 1500 [] (Some (Bearer (token_for ''alice@example.com'')))
         (Create_booking seat5) db2)) =
     bookings_collection db2 @
       [(next_oid db2, \<lparr>bk_show_id = show_id seat5,
                         bk_user_id = str_oid (fst (hd (users_collection db2))),
                         bk_seat_number = word_of_int (seat_number seat5)\<rparr>)]"
    using conjunct2 [OF booking_user_from_token] u s by blast
  have n: "user_id seat5 \<noteq> str_oid (fst (hd (users_collection db2)))"
    by code_simp
  from u s r n show ?thesis by blast
qed

section \<open>Authentication failures\<close>

lemma get_current_user_error:
  "get_current_user cfg now tok d = Inl e \<Longrightarrow> e = credentials_exception"
  by (auto simp: get_current_user_def split: sum.splits option.splits jvalue.splits)

lemma current_user_dep_error:
  "current_user_dep cfg now auth d = Inl e \<Longrightarrow>
   (case auth of Some (Bearer tok) \<Rightarrow> e = credentials_exception | _ \<Rightarrow> e = not_authenticated)"
  by (cases auth rule: oauth2_scheme.cases)
     (auto simp: current_user_dep_def dest: get_current_user_error)

lemma admin_dep_error:
  "current_user_dep cfg now auth d = Inl e \<Longrightarrow> admin_dep cfg now auth d = Inl e"
  by (simp add: admin_dep_def)

lemma handle_unauthenticated:
  "authenticated_route r \<Longrightarrow> current_user_dep cfg now auth d = Inl e \<Longrightarrow>
   handle cfg now salt auth r d = (Inl e, d)"
  by (cases r) (simp_all add: admin_dep_error)

text \<open>The causes of a failed validation, one by one.\<close>

lemma missing_token: "current_user_dep cfg now None d = Inl not_authenticated"
  by (simp add: current_user_dep_def)

lemma malformed_token: "get_current_user cfg now (Garbage s) d = Inl credentials_exception"
  by (simp add: get_current_user_def)

lemma wrong_signature:
  "k \<noteq> SECRET_KEY cfg \<Longrightarrow> get_current_user cfg now (JWS p k a) d = Inl credentials_exception"
  by (simp add: get_current_user_def)

lemma expired_token:
  "map_of p ''exp'' = Some (JInt x) \<Longrightarrow> x < now \<Longrightarrow>
   get_current_user cfg now (JWS p k a) d = Inl credentials_exception"
  by (simp add: get_current_user_def validate_exp_def)

lemma unknown_subject:
  "map_of p ''sub'' = Some (JStr s) \<Longrightarrow> get_user s d = None \<Longrightarrow>
   get_current_user cfg now (JWS p k a) d = Inl credentials_exception"
  by (auto simp: get_current_user_def split: sum.splits option.splits if_splits)

text \<open>
  C5, as amended. On every route that depends on \<open>get_current_user\<close>, a request whose
  token is not resolved to a user is answered 401 with the header
  \<open>WWW-Authenticate: Bearer\<close>, and the store is untouched. For a bearer token that was
  presented the response is the same whatever the cause (malformed, wrong signature or
  algorithm, expired, no subject, no stored user): detail "Could not validate
  credentials". A request with no \<open>Authorization\<close> header, or with another scheme,
  is answered by \<open>OAuth2PasswordBearer\<close> with the detail "Not authenticated".
\<close>

theorem failed_token_challenge:
  "authenticated_route r \<Longrightarrow> current_user_dep cfg now auth d = Inl e \<Longrightarrow>
   handle cfg now salt auth r d = (Inl e, d) \<and>
   status_code e = 401 \<and> headers e = [(''WWW-Authenticate'', ''Bearer'')] \<and>
   (case auth of
      Some (Bearer tok) \<Rightarrow> detail e = ''Could not validate credentials''
    | _ \<Rightarrow> detail e = ''Not authenticated'')"
proof (intro conjI)
  assume r: "authenticated_route r" and e: "current_user_dep cfg now auth d = Inl e"
  from r e show "handle cfg now salt auth r d = (Inl e, d)"
    by (rule handle_unauthenticated)
  from current_user_dep_error [OF e]
  have "e = credentials_exception \<or> e = not_authenticated"
    by (auto split: option.splits authorization.splits)
  then show "status_code e = 401" and "headers e = [(''WWW-Authenticate'', ''Bearer'')]"
    by (auto simp: credentials_exception_def not_authenticated_def)
  from current_user_dep_error [OF e]
  show "case auth of
      Some (Bearer tok) \<Rightarrow> detail e = ''Could not validate credentials''
    | _ \<Rightarrow> detail e = ''Not authenticated''"
    by (auto simp: credentials_exception_def not_authenticated_def
        split: option.splits authorization.splits)
qed

text \<open>
  The claim as stated asks for one response across all causes. A booking request with no
  header and one with a malformed token get different bodies.
\<close>

theorem failed_token_challenge_counterexample:
  "fst (handle cfg0 1500 [] None (Create_booking seat5) db2) =
     Inl \<lparr>status_code = 401, detail = ''Not authenticated'',
          headers = [(''WWW-Authenticate'', ''Bearer'')]\<rparr> \<and>
   fst (handle cfg0 1500 [] (Some (Bearer (Garbage ''abc''))) (Create_booking seat5) db2) =
     Inl \<lparr>status_code = 401, detail = ''Could not validate credentials'',
          headers = [(''WWW-Authenticate'', ''Bearer'')]\<rparr> \<and>
   fst (handle cfg0 1500 [] None (Create_booking seat5) db2) \<noteq>
   fst (handle cfg0 1500 [] (Some (Bearer (Garbage ''abc''))) (Create_booking seat5) db2)"
  by code_simp

theorem failed_token_challenge_witness:
  "authenticated_route (Create_booking seat5) \<and>
   current_user_dep cfg0 5000 (Some (Bearer (token_for ''alice@example.com''))) db2 =
     Inl credentials_exception \<and>
   handle cfg0 5000 [] (Some (Bearer (token_for ''alice@example.com''))) (Create_booking seat5) db2 =
     (Inl credentials_exception, db2) \<and>
   status_code credentials_exception = 401 \<and>
   headers credentials_exception = [(''WWW-Authenticate'', ''Bearer'')] \<and>
   detail credentials_exception = ''Could not validate credentials''"
proof -
  have r: "authenticated_route (Create_booking seat5)"
    by simp
  have e: "current_user_dep cfg0 5000 (Some (Bearer (token_for ''alice@example.com''))) db2 =
     Inl credentials_exception"
    by code_simp
  from failed_token_challenge [OF r e, of "[]"] r e show ?thesis
    by simp
qed

section \<open>The admin guard\<close>

text \<open>
  C6. On each of the six routes declared with \<open>Depends(is_admin_user)\<close>, a request
  whose token resolves to a user whose \<open>is_admin\<close> is not true (false or null) is
  answered 403 and the store is returned as it was; a user whose \<open>is_admin\<close> is true
  passes \<open>is_admin_user\<close> unchanged.
\<close>

theorem admin_guard:
  "admin_route r \<Longrightarrow> current_user_dep cfg now auth d = Inr u \<Longrightarrow>
   (user_is_admin (snd u) \<noteq> Some True \<longrightarrow>
      handle cfg now salt auth r d =
        (Inl \<lparr>status_code = 403, detail = ''Not enough permissions'', headers = []\<rparr>, d)) \<and>
   (user_is_admin (snd u) = Some True \<longrightarrow>
      is_admin_user u = Inr u \<and> admin_dep cfg now auth d = Inr u)"
  by (cases r) (simp_all add: admin_dep_def is_admin_user_def)

theorem admin_guard_witness:
  "admin_route (Create_screen screen1) \<and>
   current_user_dep cfg0 1500 (Some (Bearer (token_for ''alice@example.com''))) db2 =
     Inr (hd (users_collection db2)) \<and>
   user_is_admin (snd (hd (users_collection db2))) \<noteq> Some True \<and>
   handle cfg0 1500 [] (Some (Bearer (token_for ''alice@example.com''))) (Create_screen screen1) db2 =
     (Inl \<lparr>status_code = 403, detail = ''Not enough permissions'', headers = []\<rparr>, db2) \<and>
   current_user_dep cfg0 1500 (Some (Bearer (token_for ''bob@example.com''))) db2 =
     Inr (last (users_collection db2)) \<and>
   user_is_admin (snd (last (users_collection db2))) = Some True \<and>
   admin_dep cfg0 1500 (Some (Bearer (token_for ''bob@example.com''))) db2 =
     Inr (last (users_collection db2))"
proof -
  have r: "admin_route (Create_screen screen1)"
    by simp
  have a: "current_user_dep cfg0 1500 (Some (Bearer (token_for ''alice@example.com''))) db2 =
     Inr (hd (users_collection db2))"
    by code_simp
  have na: "user_is_admin (snd (hd (users_collection db2))) \<noteq> Some True"
    by code_simp
  have b: "current_user_dep cfg0 1500 (Some (Bearer (token_for ''bob@example.com''))) db2 =
     Inr (last (users_collection db2))"
    by code_simp
  have ab: "user_is_admin (snd (last (users_collection db2))) = Some True"
    by code_simp
  from admin_guard [OF r a, of "[]"] na
  have c403: "handle cfg0 1500 [] (Some (Bearer (token_for ''alice@example.com''))) (Create_screen screen1) db2 =
     (Inl \<lparr>status_code = 403, detail = ''Not enough permissions'', headers = []\<rparr>, db2)"
    by blast
  from admin_guard [OF r b, of "[]"] ab
  have pass: "admin_dep cfg0 1500 (Some (Bearer (token_for ''bob@example.com''))) db2 =
     Inr (last (users_collection db2))"
    by blast
  from r a na c403 b ab pass show ?thesis by blast
qed

section \<open>Signup and the uniqueness of emails\<close>

text \<open>
  C7, as amended. Signup makes no check of the email. The number of stored users with a
  given email grows by one with a signup request that carries it and whose password the
  hasher accepts, also when a stored user already has that email; it stays the same
  otherwise.
\<close>

theorem signup_same_email:
  "length (filter (\<lambda>u. user_email (snd u) = e)
     (users_collection (snd (handle cfg now salt auth (Create_user user) d)))) =
   length (filter (\<lambda>u. user_email (snd u) = e) (users_collection d)) +
     (if email user = e \<and> \<not> password_refused (password user) then 1 else 0)"
  by (simp add: respond_def create_user_def get_password_hash_def insert_one_def Let_def)

text \<open>
  Two signups with the same email, from the empty store, leave two records with it.
\<close>

theorem signup_same_email_counterexample:
  "map (\<lambda>u. user_email (snd u))
     (users_collection
       (run cfg0 [(0, ''s1'', None, Create_user alice),
                  (1, ''s2'', None, Create_user (alice\<lparr>username := ''mallory''\<rparr>))] empty_db)) =
   [''alice@example.com'', ''alice@example.com'']"
  by code_simp

section \<open>The rating filter of the movie search\<close>

lemma those_map_Some:
  "those (map f xs) = Some ys \<Longrightarrow> y \<in> set ys \<Longrightarrow> \<exists>x\<in>set xs. f x = Some y"
proof (induction xs arbitrary: ys)
  case Nil
  then show ?case by simp
next
  case (Cons a xs)
  then show ?case
    by (auto split: option.splits)
qed

lemma to_MovieSearchResponse_rating:
  "to_MovieSearchResponse m = Some y \<Longrightarrow> movie_rating (snd m) = Some (msr_rating y)"
  by (auto simp: to_MovieSearchResponse_def to_MovieCreate_def split: option.splits)

lemma search_movies_results:
  "search_movies cfg t g r d = (Inr rs, d') \<Longrightarrow> y \<in> set rs \<Longrightarrow>
   \<exists>m\<in>set (movies_collection d).
      movie_matches cfg (movies_query t g r) m \<and> to_MovieSearchResponse m = Some y"
proof -
  assume s: "search_movies cfg t g r d = (Inr rs, d')" and y: "y \<in> set rs"
  from s have
    "those (map to_MovieSearchResponse
       (find_to_list (movie_matches cfg (movies_query t g r)) 100 (movies_collection d))) = Some rs"
    by (auto simp: search_movies_def Let_def split: if_splits option.splits)
  from those_map_Some [OF this y] obtain m
    where m: "m \<in> set (find_to_list (movie_matches cfg (movies_query t g r)) 100 (movies_collection d))"
      and r: "to_MovieSearchResponse m = Some y"
    by blast
  from m have "m \<in> set (filter (movie_matches cfg (movies_query t g r)) (movies_collection d))"
    unfolding find_to_list_def by (rule in_set_takeD)
  with r show ?thesis by auto
qed

text \<open>
  C8. With a nonzero rating threshold, a stored movie matches the query of
  \<open>search_movies\<close> exactly when it matches the query without the threshold and its
  rating is present and, for a threshold of at least 4, greater than or equal to the
  threshold, for a threshold below 4, equal to it. Every movie the search returns
  satisfies the same condition.
\<close>

theorem rating_filter:
  "r \<noteq> 0 \<Longrightarrow>
   (movie_matches cfg (movies_query t g (Some r)) m \<longleftrightarrow>
      movie_matches cfg (movies_query t g None) m \<and>
      (case movie_rating (snd m) of
         None \<Rightarrow> False
       | Some x \<Rightarrow> if r \<ge> 4 then x \<ge> r else x = r)) \<and>
   list_all (\<lambda>y. if r \<ge> 4 then msr_rating y \<ge> r else msr_rating y = r)
     (results (search_movies cfg t g (Some r) d))"
proof (intro conjI)
  assume r: "r \<noteq> 0"
  then show "movie_matches cfg (movies_query t g (Some r)) m \<longleftrightarrow>
      movie_matches cfg (movies_query t g None) m \<and>
      (case movie_rating (snd m) of
         None \<Rightarrow> False
       | Some x \<Rightarrow> if r \<ge> 4 then x \<ge> r else x = r)"
    by (auto simp: movie_matches_def movies_query_def split: option.splits)
  have "if r \<ge> 4 then msr_rating y \<ge> r else msr_rating y = r"
    if y: "y \<in> set (results (search_movies cfg t g (Some r) d))" for y
  proof -
    from y obtain rs where "fst (search_movies cfg t g (Some r) d) = Inr rs" and "y \<in> set rs"
      by (cases "fst (search_movies cfg t g (Some r) d)") (auto simp: results_def)
    then have "search_movies cfg t g (Some r) d = (Inr rs, snd (search_movies cfg t g (Some r) d))"
      by (metis prod.collapse)
    with \<open>y \<in> set rs\<close> obtain m where "movie_matches cfg (movies_query t g (Some r)) m"
      and "to_MovieSearchResponse m = Some y"
      using search_movies_results by blast
    with r show ?thesis
      by (auto simp: movie_matches_def movies_query_def dest!: to_MovieSearchResponse_rating)
  qed
  then show "list_all (\<lambda>y. if r \<ge> 4 then msr_rating y \<ge> r else msr_rating y = r)
     (results (search_movies cfg t g (Some r) d))"
    by (simp add: list_all_iff)
qed

theorem rating_filter_witness:
  "(4::real) \<noteq> 0 \<and> (3::real) \<noteq> 0 \<and>
   map (\<lambda>m. movie_rating (snd m)) (movies_collection db_films) = [Some 3.5, Some 4, Some 4.5] \<and>
   movie_matches cfg0 (movies_query None None (Some 4)) (last (movies_collection db_films)) \<and>
   \<not> movie_matches cfg0 (movies_query None None (Some 4)) (hd (movies_collection db_films)) \<and>
   \<not> movie_matches cfg0 (movies_query None None (Some 3)) (hd (movies_collection db_films)) \<and>
   list_all (\<lambda>y. if (4::real) \<ge> 4 then msr_rating y \<ge> 4 else msr_rating y = 4)
     (results (search_movies cfg0 None None (Some 4) db_films)) \<and>
   map msr_title (results (search_movies cfg0 None None (Some 4) db_films)) = [''Beta'', ''Gamma''] \<and>
   map msr_title (results (search_movies cfg0 None None (Some 3) db_films)) = []"
proof -
  have h4: "(4::real) \<noteq> 0" and h3: "(3::real) \<noteq> 0"
    by simp_all
  have ratings:
    "map (\<lambda>m. movie_rating (snd m)) (movies_collection db_films) = [Some 3.5, Some 4, Some 4.5]"
    by code_simp
  have base: "movie_matches cfg0 (movies_query None None None) (last (movies_collection db_films))"
    "movie_rating (snd (last (movies_collection db_films))) = Some 4.5"
    "movie_matches cfg0 (movies_query None None None) (hd (movies_collection db_films))"
    "movie_rating (snd (hd (movies_collection db_films))) = Some 3.5"
    by code_simp+
  have a: "movie_matches cfg0 (movies_query None None (Some 4)) (last (movies_collection db_films))"
    using conjunct1 [OF rating_filter [OF h4, of cfg0 None None "last (movies_collection db_films)"]] base
    by simp
  have b: "\<not> movie_matches cfg0 (movies_query None None (Some 4)) (hd (movies_collection db_films))"
    using conjunct1 [OF rating_filter [OF h4, of cfg0 None None "hd (movies_collection db_films)"]] base
    by simp
  have c: "\<not> movie_matches cfg0 (movies_query None None (Some 3)) (hd (movies_collection db_films))"
    using conjunct1 [OF rating_filter [OF h3, of cfg0 None None "hd (movies_collection db_films)"]] base
    by simp
  have l: "list_all (\<lambda>y. if (4::real) \<ge> 4 then msr_rating y \<ge> 4 else msr_rating y = 4)
     (results (search_movies cfg0 None None (Some 4) db_films))"
    by (rule conjunct2 [OF rating_filter [OF h4]])
  have t4: "map msr_title (results (search_movies cfg0 None None (Some 4) db_films)) = [''Beta'', ''Gamma'']"
    by code_simp
  have t3: "map msr_title (results (search_movies cfg0 None None (Some 3) db_films)) = []"
    by code_simp
  from h4 h3 ratings a b c l t4 t3 show ?thesis by blast
qed

section \<open>Issuing and validating tokens\<close>



text \<open>
  C9, where the code departs from it. A token issued at second 1000 for a stored user
  with a ttl of zero gets the expiry 1900, the fifteen minutes meant for an absent ttl;
  sixty seconds after its ttl has elapsed it still decodes to its subject and
  \<open>get_current_user\<close> returns the user. (For a ttl that is not zero,
  \<open>jwt_issued\<close> and \<open>issued_token_decodes\<close> above give the round trip.)
\<close>

theorem zero_ttl_token:
  "create_access_token cfg0 [(''sub'', JStr ''alice@example.com'')] (Some 0) 1000 =
     Some (JWS [(''sub'', JStr ''alice@example.com''), (''exp'', JInt 1900)] ''k3y'' ''HS256'') \<and>
   jwt_decode cfg0 (JWS [(''sub'', JStr ''alice@example.com''), (''exp'', JInt 1900)] ''k3y'' ''HS256'')
     (SECRET_KEY cfg0) [ALGORITHM cfg0] 1060 =
     Inr [(''sub'', JStr ''alice@example.com''), (''exp'', JInt 1900)] \<and>
   get_current_user cfg0 1060
     (JWS [(''sub'', JStr ''alice@example.com''), (''exp'', JInt 1900)] ''k3y'' ''HS256'') db2 =
     Inr (hd (users_collection db2))"
  by code_simp

section \<open>Signup with the admin flag\<close>


lemma take_72_idem: "take 72 (take 72 pw) = take 72 pw"
  by simp




end
